theory Spec2Isabelle
  imports Main
begin

section \<open>Values and identifiers\<close>

text \<open>
  The bot of \<^verbatim>\<open>src/index.js\<close> handles two kinds of identifiers: the numeric
  \<^verbatim>\<open>ctx.from.id\<close> delivered by the chat transport, and strings (document keys, deep-link
  payloads, free text typed by the administrator). JavaScript keeps them apart: \<^verbatim>\<open>===\<close>,
  \<^verbatim>\<open>Set.has\<close> and \<^verbatim>\<open>Map.get\<close> never identify the number \<^verbatim>\<open>7\<close> with the
  string \<^verbatim>\<open>"7"\<close>. The model keeps them apart as well.
\<close>

datatype jsval = JNum int | JStr string

text \<open>\<^verbatim>\<open>String(n)\<close> for an integer \<^verbatim>\<open>n\<close>: its decimal numeral.\<close>

definition digit_char :: "nat \<Rightarrow> char" where
  "digit_char d = ''0123456789'' ! d"

fun digits :: "nat \<Rightarrow> string" where
  "digits n = (if n < 10 then [digit_char n] else digits (n div 10) @ [digit_char (n mod 10)])"

declare digits.simps [simp del]

definition String_of_num :: "int \<Rightarrow> string" where
  "String_of_num n = (if n < 0 then CHR ''-'' # digits (nat (- n)) else digits (nat n))"

text \<open>\<^verbatim>\<open>String(v)\<close>: a string is returned as it is.\<close>

fun js_String :: "jsval \<Rightarrow> string" where
  "js_String (JNum n) = String_of_num n"
| "js_String (JStr s) = s"

section \<open>The users collection\<close>

text \<open>
  The \<^verbatim>\<open>stats\<close> sub-record of a user document. \<^verbatim>\<open>referralReward\<close> is absent until the
  administrator's override writes it.
\<close>

record user_stats =
  fileCount :: int
  referrals :: "string list"
  baseLimit :: int
  referralReward :: "int option"

record userdoc =
  chatId :: int
  name :: string
  joinedAt :: string
  stats :: "user_stats option"

type_synonym users_coll = "string \<rightharpoonup> userdoc"

text \<open>The literal \<^verbatim>\<open>{ fileCount: 0, referrals: [], baseLimit: 2 }\<close>.\<close>

definition default_stats :: user_stats where
  "default_stats = \<lparr>fileCount = 0, referrals = [], baseLimit = 2, referralReward = None\<rparr>"

text \<open>
  The document store is an external service. Its \<^verbatim>\<open>get\<close> and \<^verbatim>\<open>set\<close> are modelled as map
  lookup and map update. Its \<^verbatim>\<open>update\<close> merges the given fields into an existing document;
  the promise rejects with a not-found error when the document does not exist, and with a
  store error when the service does not accept the write (\<open>accepted\<close> is false: the store
  is unreachable, the request is refused, and so on).
\<close>

datatype exn = NotFound | StoreError | TransportError | StorageError | RangeError | TypeError

definition doc_update :: "bool \<Rightarrow> users_coll \<Rightarrow> string \<Rightarrow> user_stats \<Rightarrow> exn + users_coll" where
  "doc_update accepted db k st =
     (case db k of
        None \<Rightarrow> Inl NotFound
      | Some d \<Rightarrow> if accepted then Inr (db(k \<mapsto> d\<lparr>stats := Some st\<rparr>)) else Inl StoreError)"

definition doc_set :: "users_coll \<Rightarrow> string \<Rightarrow> userdoc \<Rightarrow> users_coll" where
  "doc_set db k d = db(k \<mapsto> d)"

section \<open>Quota ledger\<close>

text \<open>\<^verbatim>\<open>getUserStats\<close> (lines 29 to 34).\<close>

definition getUserStats :: "users_coll \<Rightarrow> jsval \<Rightarrow> user_stats" where
  "getUserStats db userId =
     (case db (js_String userId) of
        None \<Rightarrow> default_stats
      | Some d \<Rightarrow> (case stats d of None \<Rightarrow> default_stats | Some st \<Rightarrow> st))"

text \<open>\<^verbatim>\<open>canUploadFile\<close> (lines 37 to 41).\<close>

definition canUploadFile :: "users_coll \<Rightarrow> jsval \<Rightarrow> bool" where
  "canUploadFile db userId =
     (let st = getUserStats db userId;
          totalAllowedFiles = baseLimit st + int (length (referrals st))
      in fileCount st < totalAllowedFiles)"

section \<open>Process state, events and replies\<close>

text \<open>
  Everything the handlers read or mutate: the \<^verbatim>\<open>users\<close> and \<^verbatim>\<open>dailyStats\<close>
  collections, the object names held by the storage bucket (in listing order), and the
  module-level variables \<^verbatim>\<open>bannedUsers\<close>, \<^verbatim>\<open>users\<close>, \<^verbatim>\<open>adminStates\<close>,
  \<^verbatim>\<open>broadcastStates\<close> and the four mode flags. \<open>adminNumber\<close> is
  \<^verbatim>\<open>Number(adminId)\<close>, \<open>None\<close> when that is not an integer.
\<close>

record world =
  users_db :: users_coll
  dailyStats :: "string \<rightharpoonup> (int list \<times> int)"
  bucket :: "string list"
  bannedUsers :: "jsval set"
  users :: "int set"
  adminStates :: "int \<rightharpoonup> string"
  broadcastStates :: "int \<rightharpoonup> bool"
  banUserMode :: bool
  unbanUserMode :: bool
  defaultSlotsMode :: bool
  referralRewardMode :: bool
  adminNumber :: "int option"

text \<open>
  The part of the Telegraf context a handler looks at. A field that the event does not carry
  is the empty string. (For a document without a file name the source throws before any
  effect; the model answers as for a wrong extension, with the state unchanged as well.)
\<close>

record ctx =
  from_id :: int
  first_name :: string
  startPayload :: string
  msg_text :: string
  file_name :: string
  match1 :: string
  now :: string

text \<open>
  Outcome of each external call a handler awaits: \<open>True\<close> when the promise resolves,
  \<open>False\<close> when it rejects. \<open>linkOk\<close> covers \<^verbatim>\<open>getFileLink\<close> and the download,
  \<open>saveOk\<close> is \<^verbatim>\<open>fileRef.save\<close>, \<open>existsOk\<close> is \<^verbatim>\<open>fileRef.exists\<close>, \<open>deleteOk\<close> is
  \<^verbatim>\<open>fileRef.delete\<close>, \<open>listOk\<close> is \<^verbatim>\<open>getFiles\<close>, \<open>txOk\<close> is \<^verbatim>\<open>runTransaction\<close>.
  \<open>statsReadOk\<close> and \<open>statsWriteOk\<close> are the two calls \<^verbatim>\<open>updateFileCount\<close> awaits: the
  read of the statistics and the \<^verbatim>\<open>update\<close> that writes them back. The reads the handlers
  make on their own, the writes of the start handler and of the add-slots branch, and the
  replies to the current chat are taken to succeed.
\<close>

record io =
  linkOk :: bool
  saveOk :: bool
  existsOk :: bool
  deleteOk :: bool
  listOk :: bool
  txOk :: bool
  statsReadOk :: bool
  statsWriteOk :: bool

datatype reply =
    NotAuthorized
  | Banned
  | StatsReply int int nat
  | LimitReached int int
  | BadExtension
  | Progress
  | UploadSuccess string int int
  | Animation
  | UploadError
  | NoFiles
  | FilesList "string list"
  | FilesError
  | DeleteMenu "string list"
  | FileNotFound string
  | Deleted string
  | DeleteError string
  | ReferredWelcome
  | ReferrerNotice string int
  | ReferrerAnimation string
  | AdminPanel
  | Welcome
  | Prompt string
  | InvalidFormat
  | UserNotFound
  | SlotsAdded int string int
  | SlotsError
  | UserBanned string
  | UserUnbanned string
  | InvalidNumber
  | DefaultSlotsUpdated int
  | RewardUpdated int
  | NoUsers
  | BroadcastResults nat nat

text \<open>
  \<^verbatim>\<open>updateFileCount\<close> (lines 44 to 49): await the read of the statistics, adjust the count
  by one, await the \<^verbatim>\<open>update\<close> that writes the statistics back. Either awaited call can
  reject, and the function then throws without having written.
\<close>

definition updateFileCount :: "jsval \<Rightarrow> bool \<Rightarrow> io \<Rightarrow> users_coll \<Rightarrow> exn + users_coll" where
  "updateFileCount userId increment e db =
     (if \<not> statsReadOk e then Inl StoreError
      else
        let st = getUserStats db userId;
            st' = st\<lparr>fileCount := (if increment then fileCount st + 1 else fileCount st - 1)\<rparr>
        in doc_update (statsWriteOk e) db (js_String userId) st')"

text \<open>\<^verbatim>\<open>isAdmin\<close> (lines 59 to 61) and \<^verbatim>\<open>isBanned\<close> (lines 64 to 66).\<close>

definition isAdmin :: "world \<Rightarrow> int \<Rightarrow> bool" where
  "isAdmin w userId = (adminNumber w = Some userId)"

definition isBanned :: "world \<Rightarrow> jsval \<Rightarrow> bool" where
  "isBanned w userId = (userId \<in> bannedUsers w)"

section \<open>String helpers\<close>

definition startsWith :: "string \<Rightarrow> string \<Rightarrow> bool" where
  "startsWith s pre = (take (length pre) s = pre)"

definition endsWith :: "string \<Rightarrow> string \<Rightarrow> bool" where
  "endsWith s suf = (length suf \<le> length s \<and> drop (length s - length suf) s = suf)"

text \<open>\<^verbatim>\<open>name.split('/').pop()\<close>: what follows the last slash.\<close>

definition last_segment :: "string \<Rightarrow> string" where
  "last_segment s = rev (takeWhile (\<lambda>c. c \<noteq> CHR ''/'') (rev s))"

definition upload_path :: "int \<Rightarrow> string \<Rightarrow> string" where
  "upload_path userId fileName = ''uploads/'' @ String_of_num userId @ ''/'' @ fileName"

definition user_prefix :: "int \<Rightarrow> string" where
  "user_prefix userId = ''uploads/'' @ String_of_num userId @ ''/''"

text \<open>Saving under a name that exists overwrites the object; deleting removes it.\<close>

definition blob_save :: "string \<Rightarrow> string list \<Rightarrow> string list" where
  "blob_save p b = (if p \<in> set b then b else b @ [p])"

definition blob_delete :: "string \<Rightarrow> string list \<Rightarrow> string list" where
  "blob_delete p b = removeAll p b"

definition getFiles :: "string \<Rightarrow> string list \<Rightarrow> string list" where
  "getFiles pre b = filter (\<lambda>p. startsWith p pre) b"

section \<open>User-facing handlers\<close>

text \<open>\<^verbatim>\<open>bot.action('mystats')\<close> (lines 175 to 189).\<close>

definition mystats_handler :: "ctx \<Rightarrow> world \<Rightarrow> reply list \<times> world" where
  "mystats_handler c w =
     (let st = getUserStats (users_db w) (JNum (from_id c));
          totalSlots = baseLimit st + int (length (referrals st))
      in ([StatsReply (fileCount st) totalSlots (length (referrals st))], w))"

text \<open>
  The \<^verbatim>\<open>try\<close> block of the document handler (lines 798 to 833). The result is the
  exception that left the block, or the replies it sent, with the state as the block left it.
  Building the success reply evaluates \<^verbatim>\<open>repeat\<close> on \<^verbatim>\<open>fileCount\<close> and on
  \<^verbatim>\<open>totalSlots - fileCount\<close>, which throws on a negative count.
\<close>

definition upload_try :: "ctx \<Rightarrow> io \<Rightarrow> world \<Rightarrow> (exn + reply list) \<times> world" where
  "upload_try c e w =
     (let p = upload_path (from_id c) (file_name c) in
      if \<not> linkOk e then (Inl TransportError, w)
      else if \<not> saveOk e then (Inl StorageError, w)
      else
        let w1 = w\<lparr>bucket := blob_save p (bucket w)\<rparr> in
        case updateFileCount (JNum (from_id c)) True e (users_db w1) of
          Inl x \<Rightarrow> (Inl x, w1)
        | Inr db' \<Rightarrow>
            let w2 = w1\<lparr>users_db := db'\<rparr>;
                st = getUserStats db' (JNum (from_id c));
                totalSlots = baseLimit st + int (length (referrals st))
            in if fileCount st < 0 \<or> totalSlots - fileCount st < 0 then (Inl RangeError, w2)
               else (Inr [UploadSuccess p (fileCount st) totalSlots, Animation], w2))"

text \<open>\<^verbatim>\<open>bot.on('document')\<close> (lines 771 to 838).\<close>

definition document_handler :: "ctx \<Rightarrow> io \<Rightarrow> world \<Rightarrow> reply list \<times> world" where
  "document_handler c e w =
     (let userId = from_id c in
      if isBanned w (JNum userId) then ([Banned], w)
      else if \<not> canUploadFile (users_db w) (JNum userId) then
        (let st = getUserStats (users_db w) (JNum userId);
             totalSlots = baseLimit st + int (length (referrals st))
         in ([LimitReached (fileCount st) totalSlots], w))
      else if \<not> endsWith (file_name c) ''.html'' \<and> \<not> endsWith (file_name c) ''.zip'' then
        ([BadExtension], w)
      else
        (case upload_try c e w of
           (Inl x, w') \<Rightarrow> ([Progress, UploadError], w')
         | (Inr rs, w') \<Rightarrow> (Progress # rs, w')))"

text \<open>\<^verbatim>\<open>bot.action('myfiles')\<close> (lines 841 to 862).\<close>

definition myfiles_handler :: "ctx \<Rightarrow> io \<Rightarrow> world \<Rightarrow> reply list \<times> world" where
  "myfiles_handler c e w =
     (if isBanned w (JNum (from_id c)) then ([Banned], w)
      else if \<not> listOk e then ([FilesError], w)
      else
        let files = getFiles (user_prefix (from_id c)) (bucket w) in
        if files = [] then ([NoFiles], w) else ([FilesList files], w))"

text \<open>\<^verbatim>\<open>bot.action('delete')\<close> (lines 867 to 890): the menu of files to delete.\<close>

definition delete_handler :: "ctx \<Rightarrow> io \<Rightarrow> world \<Rightarrow> reply list \<times> world" where
  "delete_handler c e w =
     (if isBanned w (JNum (from_id c)) then ([Banned], w)
      else if \<not> listOk e then ([FilesError], w)
      else
        let files = getFiles (user_prefix (from_id c)) (bucket w) in
        if files = [] then ([NoFiles], w) else ([DeleteMenu (map last_segment files)], w))"

text \<open>\<^verbatim>\<open>bot.action(/^del_(.+)$/)\<close> (lines 893 to 912): the deletion itself.\<close>

definition del_handler :: "ctx \<Rightarrow> io \<Rightarrow> world \<Rightarrow> reply list \<times> world" where
  "del_handler c e w =
     (let fileName = match1 c;
          p = upload_path (from_id c) fileName
      in if \<not> existsOk e then ([DeleteError fileName], w)
         else if p \<notin> set (bucket w) then ([FileNotFound fileName], w)
         else if \<not> deleteOk e then ([DeleteError fileName], w)
         else
           let w1 = w\<lparr>bucket := blob_delete p (bucket w)\<rparr> in
           case updateFileCount (JNum (from_id c)) False e (users_db w1) of
             Inl x \<Rightarrow> ([DeleteError fileName], w1)
           | Inr db' \<Rightarrow> ([Deleted fileName], w1\<lparr>users_db := db'\<rparr>))"

section \<open>Start command and referral attribution\<close>

text \<open>
  \<^verbatim>\<open>trackDailyUsage\<close> (lines 253 to 275). The date is the part of the ISO timestamp
  before \<^verbatim>\<open>T\<close>. A failed transaction is caught and logged, and writes nothing.
\<close>

definition today_of :: "string \<Rightarrow> string" where
  "today_of stamp = takeWhile (\<lambda>c. c \<noteq> CHR ''T'') stamp"

definition trackDailyUsage :: "int \<Rightarrow> string \<Rightarrow> io \<Rightarrow> world \<Rightarrow> world" where
  "trackDailyUsage userId today e w =
     (if \<not> txOk e then w
      else case dailyStats w today of
             None \<Rightarrow> w\<lparr>dailyStats := (dailyStats w)(today \<mapsto> ([userId], 1))\<rparr>
           | Some (us, n) \<Rightarrow>
               if userId \<in> set us then w
               else w\<lparr>dailyStats := (dailyStats w)(today \<mapsto> (us @ [userId], n + 1))\<rparr>)"

text \<open>
  The referral block of the start handler (lines 321 to 357), run only for a user without a
  document. It returns the messages sent and the users collection as the block leaves it.
  The store is taken to accept the update of the referrer's document.
\<close>

definition start_referral :: "ctx \<Rightarrow> users_coll \<Rightarrow> exn + (reply list \<times> users_coll)" where
  "start_referral c db =
     (let userId = from_id c; payload = startPayload c in
      if payload \<noteq> [] \<and> payload \<noteq> String_of_num userId then
        (case db payload of
           None \<Rightarrow> Inr ([], db)
         | Some referrerDoc \<Rightarrow>
             let referrerStats = getUserStats db (JStr payload) in
             if String_of_num userId \<in> set (referrals referrerStats) then Inr ([], db)
             else
               let pushed = referrerStats\<lparr>referrals := referrals referrerStats @ [String_of_num userId]\<rparr> in
               (case doc_update True db payload pushed of
                  Inl x \<Rightarrow> Inl x
                | Inr db' \<Rightarrow>
                    Inr ([ReferredWelcome,
                          ReferrerNotice payload (baseLimit pushed + int (length (referrals pushed))),
                          ReferrerAnimation payload], db')))
      else Inr ([], db))"

text \<open>\<^verbatim>\<open>bot.start\<close> (lines 298 to 379).\<close>

definition start_handler :: "ctx \<Rightarrow> io \<Rightarrow> world \<Rightarrow> reply list \<times> world" where
  "start_handler c e w =
     (let w0 = trackDailyUsage (from_id c) (today_of (now c)) e w;
          userId = from_id c;
          userName = (if first_name c = [] then ''Unknown'' else first_name c)
      in if isBanned w0 (JNum userId) then ([Banned], w0)
         else
           let w1 = w0\<lparr>users := insert userId (users w0)\<rparr>;
               menu = (if isAdmin w1 userId then AdminPanel else Welcome)
           in (case users_db w1 (String_of_num userId) of
                 Some userDoc \<Rightarrow> ([menu], w1)
               | None \<Rightarrow>
                   let initialData = \<lparr>chatId = userId, name = userName, joinedAt = now c,
                                      stats = Some default_stats\<rparr>
                   in (case start_referral c (users_db w1) of
                         Inl x \<Rightarrow> ([], w1)
                       | Inr (rs, db') \<Rightarrow>
                           (rs @ [menu],
                            w1\<lparr>users_db := doc_set db' (String_of_num userId) initialData\<rparr>))))"

section \<open>Administrator conversation\<close>

text \<open>The menu actions that arm a conversation state (lines 96 to 107, 532 to 565, 673 to 702).\<close>

definition add_slots_action :: "ctx \<Rightarrow> world \<Rightarrow> reply list \<times> world" where
  "add_slots_action c w =
     (let userId = from_id c in
      if \<not> isAdmin w userId then ([NotAuthorized], w)
      else ([Prompt ''add_slots''], w\<lparr>adminStates := (adminStates w)(userId \<mapsto> ''add_slots'')\<rparr>))"

definition ban_user_action :: "ctx \<Rightarrow> world \<Rightarrow> reply list \<times> world" where
  "ban_user_action c w =
     (let userId = from_id c in
      if \<not> isAdmin w userId then ([NotAuthorized], w)
      else ([Prompt ''ban_user''],
            w\<lparr>adminStates := (adminStates w)(userId \<mapsto> ''ban_user''),
              banUserMode := True, unbanUserMode := False,
              defaultSlotsMode := False, referralRewardMode := False\<rparr>))"

definition unban_user_action :: "ctx \<Rightarrow> world \<Rightarrow> reply list \<times> world" where
  "unban_user_action c w =
     (let userId = from_id c in
      if \<not> isAdmin w userId then ([NotAuthorized], w)
      else ([Prompt ''unban_user''],
            w\<lparr>adminStates := (adminStates w)(userId \<mapsto> ''unban_user''),
              banUserMode := False, unbanUserMode := True,
              defaultSlotsMode := False, referralRewardMode := False\<rparr>))"

definition edit_default_slots_action :: "ctx \<Rightarrow> world \<Rightarrow> reply list \<times> world" where
  "edit_default_slots_action c w =
     (if \<not> isAdmin w (from_id c) then ([NotAuthorized], w)
      else ([Prompt ''edit_default_slots''],
            w\<lparr>adminStates := (adminStates w)(from_id c \<mapsto> ''edit_default_slots''),
              banUserMode := False, unbanUserMode := False,
              defaultSlotsMode := True, referralRewardMode := False\<rparr>))"

definition edit_referral_reward_action :: "ctx \<Rightarrow> world \<Rightarrow> reply list \<times> world" where
  "edit_referral_reward_action c w =
     (if \<not> isAdmin w (from_id c) then ([NotAuthorized], w)
      else ([Prompt ''edit_referral_reward''],
            w\<lparr>adminStates := (adminStates w)(from_id c \<mapsto> ''edit_referral_reward''),
              banUserMode := False, unbanUserMode := False,
              defaultSlotsMode := False, referralRewardMode := True\<rparr>))"

text \<open>
  \<^verbatim>\<open>trim\<close>, \<^verbatim>\<open>split(' ')\<close> and \<^verbatim>\<open>parseInt\<close> on byte strings. \<^verbatim>\<open>parseInt\<close> skips leading
  white space, reads an optional sign, then hexadecimal digits after a \<^verbatim>\<open>0x\<close> prefix and
  decimal digits otherwise, and stops at the first other character; \<open>None\<close> is \<^verbatim>\<open>NaN\<close>.
  Numbers are unbounded integers.
\<close>

definition is_space :: "char \<Rightarrow> bool" where
  "is_space c = (c \<in> set [CHR '' '', CHR 0x09, CHR 0x0A, CHR 0x0B, CHR 0x0C, CHR 0x0D])"

definition trim :: "string \<Rightarrow> string" where
  "trim s = rev (dropWhile is_space (rev (dropWhile is_space s)))"

fun split_on :: "char \<Rightarrow> string \<Rightarrow> string list" where
  "split_on sep [] = [[]]"
| "split_on sep (x # xs) =
     (if x = sep then [] # split_on sep xs
      else case split_on sep xs of
             [] \<Rightarrow> [[x]]
           | y # ys \<Rightarrow> (x # y) # ys)"

definition dec_val :: "char \<Rightarrow> nat option" where
  "dec_val c =
     (let n = of_char c :: nat in if 48 \<le> n \<and> n \<le> 57 then Some (n - 48) else None)"

definition hex_val :: "char \<Rightarrow> nat option" where
  "hex_val c =
     (let n = of_char c :: nat in
      if 48 \<le> n \<and> n \<le> 57 then Some (n - 48)
      else if 97 \<le> n \<and> n \<le> 102 then Some (n - 87)
      else if 65 \<le> n \<and> n \<le> 70 then Some (n - 55)
      else None)"

fun leading_digits :: "(char \<Rightarrow> nat option) \<Rightarrow> string \<Rightarrow> nat list" where
  "leading_digits f [] = []"
| "leading_digits f (c # cs) = (case f c of None \<Rightarrow> [] | Some d \<Rightarrow> d # leading_digits f cs)"

definition parse_digits :: "nat \<Rightarrow> (char \<Rightarrow> nat option) \<Rightarrow> string \<Rightarrow> nat option" where
  "parse_digits radix f s =
     (let ds = leading_digits f s in
      if ds = [] then None else Some (foldl (\<lambda>a d. a * radix + d) 0 ds))"

definition parseInt :: "string option \<Rightarrow> int option" where
  "parseInt arg =
     (case arg of
        None \<Rightarrow> None
      | Some s \<Rightarrow>
          let s1 = dropWhile is_space s;
              neg = startsWith s1 ''-'';
              s2 = (if startsWith s1 ''-'' \<or> startsWith s1 ''+'' then tl s1 else s1);
              mag = (if startsWith s2 ''0x'' \<or> startsWith s2 ''0X''
                     then parse_digits 16 hex_val (drop 2 s2)
                     else parse_digits 10 dec_val s2)
          in map_option (\<lambda>m. if neg then - int m else int m) mag)"

text \<open>Reading an array element: \<open>None\<close> is \<^verbatim>\<open>undefined\<close>.\<close>

definition element :: "'a list \<Rightarrow> nat \<Rightarrow> 'a option" where
  "element xs i = (if i < length xs then Some (xs ! i) else None)"

text \<open>\<^verbatim>\<open>userData.stats || { fileCount: 0, referrals: [], baseLimit: 2 }\<close>.\<close>

definition stats_or_default :: "userdoc \<Rightarrow> user_stats" where
  "stats_or_default d = (case stats d of None \<Rightarrow> default_stats | Some st \<Rightarrow> st)"

text \<open>
  The two loops over \<^verbatim>\<open>usersSnapshot.docs\<close> (lines 633 to 638 and 656 to 661) rewrite the
  \<^verbatim>\<open>stats\<close> field of every document of the collection, one document at a time; every
  document exists, so each \<^verbatim>\<open>update\<close> goes through.
\<close>

definition set_all_baseLimit :: "int \<Rightarrow> users_coll \<Rightarrow> users_coll" where
  "set_all_baseLimit newLimit db =
     (\<lambda>k. map_option (\<lambda>d. d\<lparr>stats := Some ((stats_or_default d)\<lparr>baseLimit := newLimit\<rparr>)\<rparr>) (db k))"

definition set_all_referralReward :: "int \<Rightarrow> users_coll \<Rightarrow> users_coll" where
  "set_all_referralReward rewardSlots db =
     (\<lambda>k. map_option
             (\<lambda>d. d\<lparr>stats := Some ((stats_or_default d)\<lparr>referralReward := Some rewardSlots\<rparr>)\<rparr>) (db k))"

text \<open>
  The \<^verbatim>\<open>add_slots\<close> branch of the text handler after the state is cleared (lines 581 to
  606). The store is taken to accept the update of the target's document.
\<close>

definition add_slots_text :: "string \<Rightarrow> world \<Rightarrow> reply list \<times> world" where
  "add_slots_text txt w =
     (let parts = split_on CHR '' '' (trim txt);
          targetUserId = element parts 0;
          slotsToAdd = element parts 1
      in case targetUserId of
           None \<Rightarrow> ([InvalidFormat], w)
         | Some target \<Rightarrow>
             (case parseInt slotsToAdd of
                None \<Rightarrow> ([InvalidFormat], w)
              | Some slots \<Rightarrow>
                  if target = [] then ([InvalidFormat], w)
                  else
                    (case users_db w target of
                       None \<Rightarrow> ([UserNotFound], w)
                     | Some userData \<Rightarrow>
                         let currentStats = stats_or_default userData;
                             bumped = currentStats\<lparr>baseLimit := baseLimit currentStats + slots\<rparr>
                         in (case doc_update True (users_db w) target bumped of
                               Inl x \<Rightarrow> ([SlotsError], w)
                             | Inr db' \<Rightarrow>
                                 ([SlotsAdded slots target
                                     (baseLimit bumped + int (length (referrals bumped)))],
                                  w\<lparr>users_db := db'\<rparr>)))))"

text \<open>\<^verbatim>\<open>bot.on('text')\<close> (lines 568 to 670).\<close>

definition text_handler :: "ctx \<Rightarrow> world \<Rightarrow> reply list \<times> world" where
  "text_handler c w =
     (let userId = from_id c; txt = trim (msg_text c) in
      if \<not> isAdmin w userId then ([], w)
      else if adminStates w userId = Some ''add_slots'' then
        add_slots_text txt (w\<lparr>adminStates := (adminStates w)(userId := None)\<rparr>)
      else if banUserMode w then
        ([UserBanned txt], w\<lparr>banUserMode := False, bannedUsers := insert (JStr txt) (bannedUsers w)\<rparr>)
      else if unbanUserMode w then
        ([UserUnbanned txt], w\<lparr>unbanUserMode := False, bannedUsers := bannedUsers w - {JStr txt}\<rparr>)
      else if defaultSlotsMode w then
        (let w1 = w\<lparr>defaultSlotsMode := False\<rparr> in
         case parseInt (Some txt) of
           None \<Rightarrow> ([InvalidNumber], w1)
         | Some newLimit \<Rightarrow>
             if newLimit < 1 then ([InvalidNumber], w1)
             else ([DefaultSlotsUpdated newLimit],
                   w1\<lparr>users_db := set_all_baseLimit newLimit (users_db w1)\<rparr>))
      else if referralRewardMode w then
        (let w1 = w\<lparr>referralRewardMode := False\<rparr> in
         case parseInt (Some txt) of
           None \<Rightarrow> ([InvalidNumber], w1)
         | Some rewardSlots \<Rightarrow>
             if rewardSlots < 1 then ([InvalidNumber], w1)
             else ([RewardUpdated rewardSlots],
                   w1\<lparr>users_db := set_all_referralReward rewardSlots (users_db w1)\<rparr>))
      else ([], w))"

section \<open>Broadcast\<close>

text \<open>
  The fields of the broadcast message the loop looks at; \<open>None\<close> is an absent field.
  \<open>photo\<close> is the list of the \<^verbatim>\<open>file_id\<close>s of the photo sizes.
\<close>

record message =
  text_field :: "string option"
  photo :: "string list option"
  video :: "string option"
  caption :: "string option"

text \<open>
  \<open>has_text\<close>: \<^verbatim>\<open>message.text\<close> is a non-empty string. \<open>unsupported\<close>: the message has no
  such text, no \<^verbatim>\<open>photo\<close> array and no \<^verbatim>\<open>video\<close> object.
\<close>

abbreviation has_text :: "message \<Rightarrow> bool" where
  "has_text m \<equiv> text_field m \<noteq> None \<and> text_field m \<noteq> Some []"

abbreviation unsupported :: "message \<Rightarrow> bool" where
  "unsupported m \<equiv> \<not> has_text m \<and> photo m = None \<and> video m = None"

datatype modality = TextMsg | PhotoMsg | VideoMsg

text \<open>
  The \<^verbatim>\<open>if\<close>/\<^verbatim>\<open>else if\<close> chain of lines 493 to 508: a non-empty text, then any photo
  array, then a video object.
\<close>

definition modality_of :: "message \<Rightarrow> modality option" where
  "modality_of m =
     (if text_field m \<noteq> None \<and> text_field m \<noteq> Some [] then Some TextMsg
      else if photo m \<noteq> None then Some PhotoMsg
      else if video m \<noteq> None then Some VideoMsg
      else None)"

datatype delivery = Sent | Failed | Skipped

text \<open>
  The body of the loop for one recipient (lines 492 to 515); \<open>ok\<close> tells whether the transport
  accepts the send. Reading the \<^verbatim>\<open>file_id\<close> of the last element of an empty photo array
  throws inside the \<^verbatim>\<open>try\<close>.
\<close>

definition send_one :: "message \<Rightarrow> bool \<Rightarrow> delivery" where
  "send_one m ok =
     (case modality_of m of
        Some TextMsg \<Rightarrow> (if ok then Sent else Failed)
      | Some PhotoMsg \<Rightarrow> (if photo m = Some [] then Failed else if ok then Sent else Failed)
      | Some VideoMsg \<Rightarrow> (if ok then Sent else Failed)
      | None \<Rightarrow> Skipped)"

text \<open>
  The loop over \<^verbatim>\<open>usersSnapshot.docs\<close> (lines 486 to 516), from the counters
  \<open>(sentCount, failedCount)\<close>. Each recipient document comes with the outcome of the send
  addressed to it.
\<close>

fun broadcast_loop :: "message \<Rightarrow> (userdoc \<times> bool) list \<Rightarrow> nat \<times> nat \<Rightarrow> nat \<times> nat" where
  "broadcast_loop m [] (sentCount, failedCount) = (sentCount, failedCount)"
| "broadcast_loop m ((user, ok) # rest) (sentCount, failedCount) =
     (case send_one m ok of
        Sent \<Rightarrow> broadcast_loop m rest (sentCount + 1, failedCount)
      | Failed \<Rightarrow> broadcast_loop m rest (sentCount, failedCount + 1)
      | Skipped \<Rightarrow> broadcast_loop m rest (sentCount, failedCount))"

text \<open>\<^verbatim>\<open>bot.action('broadcast')\<close> (lines 463 to 472) and the message handler it registers
  (lines 474 to 523), given the documents of the users collection as the snapshot.\<close>

definition broadcast_action :: "ctx \<Rightarrow> world \<Rightarrow> reply list \<times> world" where
  "broadcast_action c w =
     (let userId = from_id c in
      if \<not> isAdmin w userId then ([NotAuthorized], w)
      else ([Prompt ''broadcast''], w\<lparr>broadcastStates := (broadcastStates w)(userId \<mapsto> True)\<rparr>))"

definition broadcast_message_handler ::
  "ctx \<Rightarrow> message \<Rightarrow> (userdoc \<times> bool) list \<Rightarrow> world \<Rightarrow> reply list \<times> world" where
  "broadcast_message_handler c m snapshot w =
     (if \<not> isAdmin w (from_id c) \<or> broadcastStates w (from_id c) \<noteq> Some True then ([], w)
      else
        let w1 = w\<lparr>broadcastStates := (broadcastStates w)(from_id c := None)\<rparr> in
        if snapshot = [] then ([NoUsers], w1)
        else (case broadcast_loop m snapshot (0, 0) of
                (sentCount, failedCount) \<Rightarrow> ([BroadcastResults sentCount failedCount], w1)))"

section \<open>Ledger operations in sequence\<close>

text \<open>
  An upload is one run of the document handler, a delete one run of the deletion handler,
  each with the outcomes of its external calls. \<open>run_ops\<close> runs them one after the other.
\<close>

datatype ledger_op = Upload ctx io | Delete ctx io

fun apply_op :: "ledger_op \<Rightarrow> world \<Rightarrow> world" where
  "apply_op (Upload c e) w = snd (document_handler c e w)"
| "apply_op (Delete c e) w = snd (del_handler c e w)"

fun run_ops :: "ledger_op list \<Rightarrow> world \<Rightarrow> world" where
  "run_ops [] w = w"
| "run_ops (x # xs) w = run_ops xs (apply_op x w)"

text \<open>The quota invariant for the statistics read under a user identifier.\<close>

definition quota_ok :: "users_coll \<Rightarrow> jsval \<Rightarrow> bool" where
  "quota_ok db userId =
     (fileCount (getUserStats db userId)
        \<le> baseLimit (getUserStats db userId) + int (length (referrals (getUserStats db userId))))"

text \<open>
  The document handler reaches \<^verbatim>\<open>fileRef.save\<close> and the save resolves; the deletion
  handler reaches \<^verbatim>\<open>fileRef.delete\<close> and the deletion resolves.
\<close>

definition save_succeeds :: "ctx \<Rightarrow> io \<Rightarrow> world \<Rightarrow> bool" where
  "save_succeeds c e w =
     (\<not> isBanned w (JNum (from_id c)) \<and> canUploadFile (users_db w) (JNum (from_id c))
      \<and> (endsWith (file_name c) ''.html'' \<or> endsWith (file_name c) ''.zip'')
      \<and> linkOk e \<and> saveOk e)"

definition delete_succeeds :: "ctx \<Rightarrow> io \<Rightarrow> world \<Rightarrow> bool" where
  "delete_succeeds c e w =
     (existsOk e \<and> upload_path (from_id c) (match1 c) \<in> set (bucket w) \<and> deleteOk e)"

text \<open>
  The ledger write as both handlers perform it: the users collection after
  \<^verbatim>\<open>await updateFileCount(...)\<close>, which is left as it was when the call throws.
\<close>

definition ledger_write :: "jsval \<Rightarrow> bool \<Rightarrow> io \<Rightarrow> users_coll \<Rightarrow> users_coll" where
  "ledger_write u inc e db =
     (case updateFileCount u inc e db of Inl x \<Rightarrow> db | Inr db' \<Rightarrow> db')"

section \<open>Scenarios\<close>

text \<open>
  The state of a freshly started process whose administrator is user 1, a context that
  carries only the sender, and the run in which every external call resolves.
\<close>

definition fresh_world :: world where
  "fresh_world =
     \<lparr>users_db = Map.empty, dailyStats = Map.empty, bucket = [], bannedUsers = {},
      users = {}, adminStates = Map.empty, broadcastStates = Map.empty,
      banUserMode = False, unbanUserMode = False, defaultSlotsMode = False,
      referralRewardMode = False, adminNumber = Some 1\<rparr>"

definition ctx_from :: "int \<Rightarrow> ctx" where
  "ctx_from n =
     \<lparr>from_id = n, first_name = [], startPayload = [], msg_text = [], file_name = [],
      match1 = [], now = ''2024-05-01T10:00:00.000Z''\<rparr>"

definition all_ok :: io where
  "all_ok = \<lparr>linkOk = True, saveOk = True, existsOk = True, deleteOk = True, listOk = True,
             txOk = True, statsReadOk = True, statsWriteOk = True\<rparr>"

definition text_only :: "string \<Rightarrow> message" where
  "text_only s = \<lparr>text_field = Some s, photo = None, video = None, caption = None\<rparr>"

definition sticker_only :: message where
  "sticker_only = \<lparr>text_field = None, photo = None, video = None, caption = None\<rparr>"

definition recipient :: "int \<Rightarrow> userdoc" where
  "recipient n = \<lparr>chatId = n, name = ''u'', joinedAt = [], stats = Some default_stats\<rparr>"

definition upload_ctx :: "int \<Rightarrow> string \<Rightarrow> ctx" where
  "upload_ctx n f = (ctx_from n)\<lparr>file_name := f\<rparr>"

definition del_ctx :: "int \<Rightarrow> string \<Rightarrow> ctx" where
  "del_ctx n f = (ctx_from n)\<lparr>match1 := f\<rparr>"

definition text_ctx :: "int \<Rightarrow> string \<Rightarrow> ctx" where
  "text_ctx n t = (ctx_from n)\<lparr>msg_text := t\<rparr>"

definition start_ctx :: "int \<Rightarrow> string \<Rightarrow> ctx" where
  "start_ctx n p = (ctx_from n)\<lparr>startPayload := p\<rparr>"

definition storage_down :: io where
  "storage_down = all_ok\<lparr>saveOk := False, deleteOk := False\<rparr>"

text \<open>The run in which the users collection refuses the write of the statistics.\<close>

definition ledger_down :: io where
  "ledger_down = all_ok\<lparr>statsWriteOk := False\<rparr>"

text \<open>User \<open>n\<close> has sent the start command to the fresh process.\<close>

definition joined :: "int \<Rightarrow> world" where
  "joined n = snd (start_handler (ctx_from n) all_ok fresh_world)"

text \<open>User 5 has joined and has uploaded \<^verbatim>\<open>a.html\<close>.\<close>

definition one_stored :: world where
  "one_stored = snd (document_handler (upload_ctx 5 ''a.html'') all_ok (joined 5))"

text \<open>
  User 7 has joined; the administrator (user 1) has pressed the ban button and answered the
  prompt with the text \<^verbatim>\<open>7\<close>.
\<close>

definition banned7 :: world where
  "banned7 = snd (text_handler (text_ctx 1 ''7'') (snd (ban_user_action (ctx_from 1) (joined 7))))"

text \<open>
  User 5 uploads \<^verbatim>\<open>a.html\<close> before ever sending the start command, then sends it, then
  deletes the file.
\<close>

definition upload_start_delete :: world where
  "upload_start_delete =
     snd (del_handler (del_ctx 5 ''a.html'') all_ok
       (snd (start_handler (ctx_from 5) all_ok
         (snd (document_handler (upload_ctx 5 ''a.html'') all_ok fresh_world)))))"

text \<open>
  User 5 has joined and sends three files, all external calls resolving, then deletes the
  first one.
\<close>

definition three_uploads_one_delete :: "ledger_op list" where
  "three_uploads_one_delete =
     [Upload (upload_ctx 5 ''a.html'') all_ok, Upload (upload_ctx 5 ''b.html'') all_ok,
      Upload (upload_ctx 5 ''c.zip'') all_ok, Delete (del_ctx 5 ''a.html'') all_ok]"


text \<open>
  The administrator presses the ban button (\<open>ban_armed\<close>) and answers the prompt
  (\<open>ban_answered\<close>); or presses the add-slots button after the ban button and answers that
  prompt (\<open>slots_answered\<close>).
\<close>

definition ban_armed :: world where
  "ban_armed = snd (ban_user_action (ctx_from 1) fresh_world)"

definition ban_answered :: world where
  "ban_answered = snd (text_handler (text_ctx 1 ''7'') ban_armed)"

definition slots_answered :: world where
  "slots_answered =
     snd (text_handler (text_ctx 1 ''7 3'') (snd (add_slots_action (ctx_from 1) ban_armed)))"

text \<open>
  A user with two base slots, one referral worth five slots according to the reward field,
  and three files stored.
\<close>

definition heavy_user :: users_coll where
  "heavy_user =
     [''9'' \<mapsto> \<lparr>chatId = 9, name = ''u'', joinedAt = [],
        stats = Some \<lparr>fileCount = 3, referrals = [''4''], baseLimit = 2,
                      referralReward = Some 5\<rparr>\<rparr>]"

lemmas scenario_defs = fresh_world_def ctx_from_def all_ok_def joined_def

lemmas string_defs = String_of_num_def digits.simps digit_char_def upload_path_def
  endsWith_def today_of_def

lemmas ledger_defs = getUserStats_def canUploadFile_def updateFileCount_def doc_update_def
  doc_set_def default_stats_def isBanned_def isAdmin_def blob_save_def blob_delete_def

lemmas handler_defs = start_handler_def start_referral_def trackDailyUsage_def
  document_handler_def upload_try_def del_handler_def

section \<open>Quota check\<close>

lemma getUserStats_set_all_referralReward:
  "getUserStats (set_all_referralReward r db) userId =
     (case db (js_String userId) of
        None \<Rightarrow> default_stats
      | Some d \<Rightarrow> (getUserStats db userId)\<lparr>referralReward := Some r\<rparr>)"
  by (simp add: getUserStats_def set_all_referralReward_def stats_or_default_def
           split: option.splits)

text \<open>A refused upload leaves the whole state as it was.\<close>

lemma refused_upload_keeps_state:
  "\<not> canUploadFile (users_db w) (JNum (from_id c)) \<Longrightarrow> snd (document_handler c e w) = w"
  by (simp add: document_handler_def Let_def)

text \<open>
  With three files, two base slots and one referral the upload is refused, although the
  reward of five slots per referral would leave room for it.
\<close>

lemma reward_not_applied:
  "\<not> canUploadFile heavy_user (JNum 9)"
  "(3::int) < 2 + 1 * 5"
  by (simp_all add: heavy_user_def canUploadFile_def getUserStats_def String_of_num_def
        digits.simps digit_char_def)

text \<open>
  Claim C1. \<open>canUploadFile\<close> holds exactly when the \<open>fileCount\<close> read for the user is
  strictly below \<open>baseLimit\<close> plus the number of referrals. It takes the users collection
  and returns a truth value only, so it writes nothing; and the referral reward does not
  enter the formula: rewriting the reward of every user to any value \<open>r\<close>, as the
  administrator's override does, leaves the answer as it was.
\<close>

theorem canUploadFile_formula:
  "canUploadFile db userId =
     (fileCount (getUserStats db userId)
        < baseLimit (getUserStats db userId) + int (length (referrals (getUserStats db userId))))
   \<and> canUploadFile (set_all_referralReward r db) userId = canUploadFile db userId"
  by (simp add: canUploadFile_def getUserStats_set_all_referralReward Let_def split: option.splits)
     (simp add: getUserStats_def)

section \<open>Broadcast counts\<close>

text \<open>The classification of the message and the outcome for one recipient, on the fields.\<close>

lemma modality_of_fields:
  "(modality_of m = Some TextMsg) = has_text m"
  "(modality_of m = Some PhotoMsg) = (\<not> has_text m \<and> photo m \<noteq> None)"
  "(modality_of m = Some VideoMsg) = (\<not> has_text m \<and> photo m = None \<and> video m \<noteq> None)"
  "(modality_of m = None) = unsupported m"
  by (auto simp: modality_of_def)

lemma send_one_fields:
  "send_one m ok =
     (if unsupported m then Skipped
      else if \<not> has_text m \<and> photo m = Some [] then Failed
      else if ok then Sent else Failed)"
  by (auto simp: send_one_def modality_of_def split: option.splits modality.splits)

lemma broadcast_loop_counts:
  "broadcast_loop m rs (s, f) =
     (s + length (filter (\<lambda>r. send_one m (snd r) = Sent) rs),
      f + length (filter (\<lambda>r. send_one m (snd r) = Failed) rs))"
  by (induction rs arbitrary: s f) (auto split: delivery.splits)

lemma delivery_partition:
  "length (filter (\<lambda>r. send_one m (snd r) = Sent) rs)
   + length (filter (\<lambda>r. send_one m (snd r) = Failed) rs)
   + length (filter (\<lambda>r. send_one m (snd r) = Skipped) rs) = length rs"
proof (induction rs)
  case Nil
  show ?case by simp
next
  case (Cons r rs)
  then show ?case by (cases "send_one m (snd r)") simp_all
qed

text \<open>The two counters in closed form, on the fields of the message and the outcomes.\<close>

lemma broadcast_loop_closed:
  "broadcast_loop m rs (0, 0) =
     (if unsupported m then (0, 0)
      else if \<not> has_text m \<and> photo m = Some [] then (0, length rs)
      else (length (filter snd rs), length (filter (\<lambda>r. \<not> snd r) rs)))"
proof -
  consider (skip) "unsupported m"
    | (empty) "\<not> unsupported m" "\<not> has_text m \<and> photo m = Some []"
    | (send) "\<not> unsupported m" "\<not> (\<not> has_text m \<and> photo m = Some [])"
    by blast
  then show ?thesis
  proof cases
    case skip
    then have "\<And>ok. send_one m ok = Skipped" by (simp add: send_one_fields)
    with skip show ?thesis by (simp add: broadcast_loop_counts)
  next
    case empty
    then have "\<And>ok. send_one m ok = Failed" by (simp add: send_one_fields)
    with empty show ?thesis by (simp add: broadcast_loop_counts)
  next
    case send
    then have "\<And>ok. send_one m ok = (if ok then Sent else Failed)"
      by (auto simp: send_one_fields)
    then have "(\<lambda>r::userdoc \<times> bool. send_one m (snd r) = Sent) = snd"
      "(\<lambda>r::userdoc \<times> bool. send_one m (snd r) = Failed) = (\<lambda>r. \<not> snd r)"
      by (auto simp: fun_eq_iff)
    with send show ?thesis by (auto simp: broadcast_loop_counts)
  qed
qed

lemma skipped_count:
  "length (filter (\<lambda>r. send_one m (snd r) = Skipped) rs) = (if unsupported m then length rs else 0)"
  by (induction rs) (auto simp: send_one_fields)

text \<open>The armed administrator's message over a non-empty snapshot reports the two counters.\<close>

lemma broadcast_reports_counts:
  "isAdmin w (from_id c) \<Longrightarrow> broadcastStates w (from_id c) = Some True \<Longrightarrow> rs \<noteq> [] \<Longrightarrow>
   fst (broadcast_message_handler c m rs w) =
     [BroadcastResults (length (filter (\<lambda>r. send_one m (snd r) = Sent) rs))
        (length (filter (\<lambda>r. send_one m (snd r) = Failed) rs))]"
  by (simp add: broadcast_message_handler_def broadcast_loop_counts Let_def)

text \<open>
  Three recipients, the second of which rejects the send: a text message is sent to two and
  fails for one; a message that is neither text, photo nor video reaches nobody and fails
  for nobody.
\<close>

lemma broadcast_examples:
  "broadcast_loop (text_only ''hi'')
     [(recipient 2, True), (recipient 3, False), (recipient 4, True)] (0, 0) = (2, 1)"
  "broadcast_loop sticker_only
     [(recipient 2, True), (recipient 3, False), (recipient 4, True)] (0, 0) = (0, 0)"
  by (simp_all add: send_one_def modality_of_def text_only_def sticker_only_def)

text \<open>
  Claim C5. For every message and every list of recipients with their delivery outcomes,
  the loop started from \<open>(0, 0)\<close> visits every recipient, whatever happened to the earlier
  ones. A message is text when \<^verbatim>\<open>message.text\<close> is a non-empty string, else photo when it
  has a \<^verbatim>\<open>photo\<close> array, else video when it has a \<^verbatim>\<open>video\<close> object, and unsupported
  otherwise. For an unsupported message every recipient is skipped and both counters stay 0.
  For a supported one \<open>sentCount\<close> is the number of recipients whose send was accepted and
  \<open>failedCount\<close> the number whose send threw (a photo message with an empty array of sizes
  apart, which throws for every recipient before the send). In every case a recipient falls
  in exactly one of the three classes, so sent, failed and skipped add up to the number of
  recipients.
\<close>

theorem broadcast_partition:
  "broadcast_loop m rs (0, 0) =
     (if unsupported m then (0, 0)
      else if \<not> has_text m \<and> photo m = Some [] then (0, length rs)
      else (length (filter snd rs), length (filter (\<lambda>r. \<not> snd r) rs)))
   \<and> broadcast_loop m rs (0, 0) =
       (length (filter (\<lambda>r. send_one m (snd r) = Sent) rs),
        length (filter (\<lambda>r. send_one m (snd r) = Failed) rs))
   \<and> length (filter (\<lambda>r. send_one m (snd r) = Skipped) rs)
       = (if unsupported m then length rs else 0)
   \<and> fst (broadcast_loop m rs (0, 0)) + snd (broadcast_loop m rs (0, 0))
       + length (filter (\<lambda>r. send_one m (snd r) = Skipped) rs) = length rs
   \<and> fst (broadcast_loop m rs (0, 0)) + snd (broadcast_loop m rs (0, 0))
       + (if unsupported m then length rs else 0) = length rs
   \<and> send_one m ok =
       (if unsupported m then Skipped
        else if \<not> has_text m \<and> photo m = Some [] then Failed
        else if ok then Sent else Failed)
   \<and> (modality_of m = Some TextMsg) = has_text m
   \<and> (modality_of m = Some PhotoMsg) = (\<not> has_text m \<and> photo m \<noteq> None)
   \<and> (modality_of m = Some VideoMsg) = (\<not> has_text m \<and> photo m = None \<and> video m \<noteq> None)
   \<and> (modality_of m = None) = unsupported m"
proof -
  have counts: "broadcast_loop m rs (0, 0) =
       (length (filter (\<lambda>r. send_one m (snd r) = Sent) rs),
        length (filter (\<lambda>r. send_one m (snd r) = Failed) rs))"
    by (simp add: broadcast_loop_counts)
  have total: "fst (broadcast_loop m rs (0, 0)) + snd (broadcast_loop m rs (0, 0))
       + length (filter (\<lambda>r. send_one m (snd r) = Skipped) rs) = length rs"
    using delivery_partition [of m rs] by (simp add: counts)
  have total': "fst (broadcast_loop m rs (0, 0)) + snd (broadcast_loop m rs (0, 0))
       + (if unsupported m then length rs else 0) = length rs"
    using total by (simp only: skipped_count)
  from broadcast_loop_closed [of m rs] counts skipped_count [of m rs] total total'
    send_one_fields [of m ok] modality_of_fields [of m]
  show ?thesis by blast
qed

section \<open>Referral attribution\<close>

lemma trackDailyUsage_keeps [simp]:
  "users_db (trackDailyUsage u t e w) = users_db w"
  "bannedUsers (trackDailyUsage u t e w) = bannedUsers w"
  "bucket (trackDailyUsage u t e w) = bucket w"
  "adminNumber (trackDailyUsage u t e w) = adminNumber w"
  by (simp_all add: trackDailyUsage_def split: option.splits prod.splits)

lemma isBanned_trackDailyUsage [simp]:
  "isBanned (trackDailyUsage u t e w) v = isBanned w v"
  by (simp add: isBanned_def)

text \<open>The referral block either changes nothing or rewrites the referrer's document.\<close>

lemma start_referral_cases:
  "start_referral c db = Inr ([], db) \<or>
   (\<exists>rd rs. startPayload c \<noteq> [] \<and> startPayload c \<noteq> String_of_num (from_id c)
      \<and> db (startPayload c) = Some rd
      \<and> String_of_num (from_id c) \<notin> set (referrals (getUserStats db (JStr (startPayload c))))
      \<and> start_referral c db =
          Inr (rs, db(startPayload c \<mapsto>
                 rd\<lparr>stats := Some ((getUserStats db (JStr (startPayload c)))
                        \<lparr>referrals := referrals (getUserStats db (JStr (startPayload c)))
                                       @ [String_of_num (from_id c)]\<rparr>)\<rparr>)))"
  by (auto simp: start_referral_def doc_update_def Let_def split: option.splits)

text \<open>Run on its own result, the referral block finds the referee listed and changes nothing.\<close>

lemma start_referral_idempotent:
  assumes "start_referral c db = Inr (rs, db')"
  shows "start_referral c db' = Inr ([], db')"
proof -
  from start_referral_cases [of c db] assms
  consider (same) "db' = db" "start_referral c db = Inr ([], db)"
    | (credited) rd where "startPayload c \<noteq> []" "startPayload c \<noteq> String_of_num (from_id c)"
        "db (startPayload c) = Some rd"
        "db' = db(startPayload c \<mapsto>
                 rd\<lparr>stats := Some ((getUserStats db (JStr (startPayload c)))
                        \<lparr>referrals := referrals (getUserStats db (JStr (startPayload c)))
                                       @ [String_of_num (from_id c)]\<rparr>)\<rparr>)"
    by auto
  then show ?thesis
  proof cases
    case same
    then show ?thesis by simp
  next
    case credited
    then show ?thesis
      by (simp add: start_referral_def getUserStats_def Let_def)
  qed
qed







lemma getUserStats_doc_set_default:
  "db k = None \<Longrightarrow>
   referrals (getUserStats
      (doc_set db k \<lparr>chatId = a, name = b, joinedAt = t, stats = Some default_stats\<rparr>) v)
     = referrals (getUserStats db v)"
  by (simp add: getUserStats_def doc_set_def default_stats_def)

text \<open>
  Claim C8. A start event whose payload is the sender's own identifier attributes nothing:
  the list of referrals read under any identifier \<open>k\<close> is the same after the event as
  before it, so no list gains the sender's identifier.
\<close>

theorem self_referral_ignored:
  "startPayload c = String_of_num (from_id c) \<Longrightarrow>
   referrals (getUserStats (users_db (snd (start_handler c e w))) k)
     = referrals (getUserStats (users_db w) k)"
  by (auto simp: start_handler_def Let_def start_referral_def getUserStats_doc_set_default
           split: option.splits)

text \<open>User 5 opens the bot through a link that carries its own identifier.\<close>

theorem self_referral_ignored_witness:
  "startPayload (start_ctx 5 ''5'') = String_of_num (from_id (start_ctx 5 ''5''))
   \<and> users_db (snd (start_handler (start_ctx 5 ''5'') all_ok (joined 1))) ''5'' \<noteq> None
   \<and> referrals (getUserStats (users_db (snd (start_handler (start_ctx 5 ''5'') all_ok (joined 1))))
        (JNum 5)) = []
   \<and> referrals (getUserStats (users_db (snd (start_handler (start_ctx 5 ''5'') all_ok (joined 1))))
        (JNum 1)) = []"
proof -
  have own: "startPayload (start_ctx 5 ''5'') = String_of_num (from_id (start_ctx 5 ''5''))"
    by (simp add: start_ctx_def scenario_defs string_defs)
  have before: "referrals (getUserStats (users_db (joined 1)) (JNum 5)) = []"
    "referrals (getUserStats (users_db (joined 1)) (JNum 1)) = []"
    by (simp_all add: scenario_defs string_defs ledger_defs handler_defs Let_def)
  have known: "users_db (snd (start_handler (start_ctx 5 ''5'') all_ok (joined 1))) ''5'' \<noteq> None"
    by (simp add: start_ctx_def scenario_defs string_defs ledger_defs handler_defs Let_def)
  from own before known
    self_referral_ignored [OF own, of all_ok "joined 1" "JNum 5"]
    self_referral_ignored [OF own, of all_ok "joined 1" "JNum 1"]
  show ?thesis by simp
qed

section \<open>Ledger and storage\<close>

text \<open>When the ledger write throws, and what it writes when it does not.\<close>

lemma updateFileCount_absent:
  "db (js_String u) = None \<Longrightarrow>
   updateFileCount u inc e db = Inl (if statsReadOk e then NotFound else StoreError)"
  by (simp add: updateFileCount_def doc_update_def Let_def)

lemma updateFileCount_throws:
  "isl (updateFileCount u inc e db) =
     (\<not> (statsReadOk e \<and> statsWriteOk e \<and> db (js_String u) \<noteq> None))"
  by (auto simp: updateFileCount_def doc_update_def Let_def split: option.splits)

lemma updateFileCount_writes:
  "\<not> isl (updateFileCount u inc e db) \<Longrightarrow>
   \<exists>d. db (js_String u) = Some d \<and>
       updateFileCount u inc e db =
         Inr (db(js_String u \<mapsto> d\<lparr>stats := Some ((getUserStats db u)
                \<lparr>fileCount := (if inc then fileCount (getUserStats db u) + 1
                                else fileCount (getUserStats db u) - 1)\<rparr>)\<rparr>))"
  by (auto simp: updateFileCount_def doc_update_def Let_def split: option.splits if_splits)

lemma getUserStats_upd:
  "getUserStats (db(key \<mapsto> d\<lparr>stats := Some st\<rparr>)) k =
     (if js_String k = key then st else getUserStats db k)"
  by (simp add: getUserStats_def)

text \<open>What each handler does to the users collection.\<close>

lemma document_handler_db:
  "users_db (snd (document_handler c e w)) =
     (if save_succeeds c e w then ledger_write (JNum (from_id c)) True e (users_db w)
      else users_db w)"
  by (auto simp: document_handler_def upload_try_def save_succeeds_def ledger_write_def Let_def
           split: sum.splits prod.splits)

lemma del_handler_db:
  "users_db (snd (del_handler c e w)) =
     (if delete_succeeds c e w then ledger_write (JNum (from_id c)) False e (users_db w)
      else users_db w)"
  by (auto simp: del_handler_def delete_succeeds_def ledger_write_def Let_def
           split: sum.splits prod.splits)

lemma getUserStats_ledger_write:
  "getUserStats (ledger_write u inc e db) k =
     (if js_String k = js_String u \<and> \<not> isl (updateFileCount u inc e db)
      then (getUserStats db u)\<lparr>fileCount := (if inc then fileCount (getUserStats db u) + 1
                                               else fileCount (getUserStats db u) - 1)\<rparr>
      else getUserStats db k)"
proof (cases "isl (updateFileCount u inc e db)")
  case True
  then obtain x where "updateFileCount u inc e db = Inl x"
    by (cases "updateFileCount u inc e db") simp_all
  with True show ?thesis by (simp add: ledger_write_def)
next
  case False
  from updateFileCount_writes [OF False] False show ?thesis
    by (auto simp: ledger_write_def getUserStats_upd)
qed

lemma failed_save_keeps_ledger:
  "\<not> saveOk e \<Longrightarrow> users_db (snd (document_handler c e w)) = users_db w"
  by (simp add: document_handler_db save_succeeds_def)

lemma failed_delete_keeps_ledger:
  "\<not> deleteOk e \<Longrightarrow> users_db (snd (del_handler c e w)) = users_db w"
  by (simp add: del_handler_db delete_succeeds_def)

lemma stats_change_needs_save:
  "getUserStats (users_db (snd (document_handler c e w))) k \<noteq> getUserStats (users_db w) k
   \<Longrightarrow> save_succeeds c e w"
  by (auto simp: document_handler_db split: if_splits)

lemma stats_change_needs_delete:
  "getUserStats (users_db (snd (del_handler c e w))) k \<noteq> getUserStats (users_db w) k
   \<Longrightarrow> delete_succeeds c e w"
  by (auto simp: del_handler_db split: if_splits)

lemma upload_count:
  "save_succeeds c e w \<Longrightarrow>
   \<not> isl (updateFileCount (JNum (from_id c)) True e (users_db w)) \<Longrightarrow>
   fileCount (getUserStats (users_db (snd (document_handler c e w))) (JNum (from_id c)))
     = fileCount (getUserStats (users_db w) (JNum (from_id c))) + 1"
  by (simp add: document_handler_db getUserStats_ledger_write)

lemma delete_count:
  "delete_succeeds c e w \<Longrightarrow>
   \<not> isl (updateFileCount (JNum (from_id c)) False e (users_db w)) \<Longrightarrow>
   fileCount (getUserStats (users_db (snd (del_handler c e w))) (JNum (from_id c)))
     = fileCount (getUserStats (users_db w) (JNum (from_id c))) - 1"
  by (simp add: del_handler_db getUserStats_ledger_write)

text \<open>
  Claim C2 as stated fails. User 5 has a document with \<open>fileCount\<close> 0 and uploads
  \<^verbatim>\<open>a.html\<close>; the download and the save succeed and the object is in the bucket, but the
  users collection refuses the write of the statistics. The handler's \<^verbatim>\<open>catch\<close> reports
  the error, and the \<open>fileCount\<close> read for user 5 is still 0, not one more.
\<close>

theorem increment_on_save_counterexample:
  "save_succeeds (upload_ctx 5 ''a.html'') ledger_down (joined 5)
   \<and> users_db (joined 5) ''5'' \<noteq> None
   \<and> fileCount (getUserStats (users_db (joined 5)) (JNum 5)) = 0
   \<and> document_handler (upload_ctx 5 ''a.html'') ledger_down (joined 5)
       = ([Progress, UploadError], (joined 5)\<lparr>bucket := [''uploads/5/a.html'']\<rparr>)
   \<and> fileCount (getUserStats
        (users_db (snd (document_handler (upload_ctx 5 ''a.html'') ledger_down (joined 5))))
        (JNum 5))
      \<noteq> fileCount (getUserStats (users_db (joined 5)) (JNum 5)) + 1"
  by (simp add: save_succeeds_def upload_ctx_def ledger_down_def scenario_defs string_defs
        ledger_defs handler_defs Let_def)

text \<open>
  Claim C2, amended. In both flows the ledger is written only after the storage operation
  has succeeded. If the save throws, the upload leaves the users collection as it was, and
  the statistics read under any identifier change only if the handler reached the save and
  the save succeeded; when it did and the ledger write that follows goes through,
  \<open>fileCount\<close> is one more than before. Likewise for the delete: if the deletion throws the
  users collection is as it was, statistics change only if the handler reached the deletion
  and it succeeded, and when it did and the ledger write goes through, \<open>fileCount\<close> is one
  less than before.
\<close>

theorem ledger_after_storage:
  "(\<not> saveOk e \<longrightarrow> users_db (snd (document_handler c e w)) = users_db w)
   \<and> (getUserStats (users_db (snd (document_handler c e w))) k \<noteq> getUserStats (users_db w) k
        \<longrightarrow> save_succeeds c e w)
   \<and> (save_succeeds c e w \<and> \<not> isl (updateFileCount (JNum (from_id c)) True e (users_db w))
        \<longrightarrow> fileCount (getUserStats (users_db (snd (document_handler c e w))) (JNum (from_id c)))
              = fileCount (getUserStats (users_db w) (JNum (from_id c))) + 1)
   \<and> (\<not> deleteOk e' \<longrightarrow> users_db (snd (del_handler c' e' w')) = users_db w')
   \<and> (getUserStats (users_db (snd (del_handler c' e' w'))) k \<noteq> getUserStats (users_db w') k
        \<longrightarrow> delete_succeeds c' e' w')
   \<and> (delete_succeeds c' e' w'
          \<and> \<not> isl (updateFileCount (JNum (from_id c')) False e' (users_db w'))
        \<longrightarrow> fileCount (getUserStats (users_db (snd (del_handler c' e' w'))) (JNum (from_id c')))
              = fileCount (getUserStats (users_db w') (JNum (from_id c'))) - 1)"
  using failed_save_keeps_ledger [of e c w] failed_delete_keeps_ledger [of e' c' w']
    stats_change_needs_save [of c e w k] stats_change_needs_delete [of c' e' w' k]
    upload_count [of c e w] delete_count [of c' e' w']
  by blast

text \<open>
  User 5 has joined. With the storage service down, the upload of \<^verbatim>\<open>a.html\<close> leaves the
  users collection untouched; with every call resolving it changes the statistics of user 5
  and brings the count from 0 to 1. Then \<^verbatim>\<open>a.html\<close> is stored: with the storage service
  down the deletion handler reaches the deletion, which throws, and the users collection is
  untouched; with every call resolving the deletion changes the statistics and brings the
  count from 1 to 0.
\<close>

theorem ledger_after_storage_witness:
  "\<not> saveOk storage_down \<and> \<not> deleteOk storage_down
   \<and> users_db (snd (document_handler (upload_ctx 5 ''a.html'') storage_down (joined 5)))
       = users_db (joined 5)
   \<and> getUserStats (users_db (snd (document_handler (upload_ctx 5 ''a.html'') all_ok (joined 5))))
        (JNum 5) \<noteq> getUserStats (users_db (joined 5)) (JNum 5)
   \<and> save_succeeds (upload_ctx 5 ''a.html'') all_ok (joined 5)
   \<and> \<not> isl (updateFileCount (JNum (from_id (upload_ctx 5 ''a.html''))) True all_ok
            (users_db (joined 5)))
   \<and> fileCount (getUserStats (users_db (joined 5)) (JNum 5)) = 0
   \<and> fileCount (getUserStats (users_db one_stored) (JNum 5)) = 1
   \<and> upload_path 5 ''a.html'' \<in> set (bucket one_stored)
   \<and> users_db (snd (del_handler (del_ctx 5 ''a.html'') storage_down one_stored))
       = users_db one_stored
   \<and> getUserStats (users_db (snd (del_handler (del_ctx 5 ''a.html'') all_ok one_stored))) (JNum 5)
        \<noteq> getUserStats (users_db one_stored) (JNum 5)
   \<and> delete_succeeds (del_ctx 5 ''a.html'') all_ok one_stored
   \<and> \<not> isl (updateFileCount (JNum (from_id (del_ctx 5 ''a.html''))) False all_ok
            (users_db one_stored))
   \<and> fileCount (getUserStats
        (users_db (snd (del_handler (del_ctx 5 ''a.html'') all_ok one_stored))) (JNum 5)) = 0"
proof -
  note run = one_stored_def upload_ctx_def del_ctx_def scenario_defs string_defs ledger_defs
    handler_defs Let_def
  have down: "\<not> saveOk storage_down" "\<not> deleteOk storage_down"
    by (simp_all add: storage_down_def all_ok_def)
  have senders: "from_id (upload_ctx 5 ''a.html'') = 5" "from_id (del_ctx 5 ''a.html'') = 5"
    by (simp_all add: upload_ctx_def del_ctx_def ctx_from_def)
  have up: "save_succeeds (upload_ctx 5 ''a.html'') all_ok (joined 5)"
    "\<not> isl (updateFileCount (JNum 5) True all_ok (users_db (joined 5)))"
    "fileCount (getUserStats (users_db (joined 5)) (JNum 5)) = 0"
    by (simp_all add: save_succeeds_def run)
  have stored: "upload_path 5 ''a.html'' \<in> set (bucket one_stored)"
    "fileCount (getUserStats (users_db one_stored) (JNum 5)) = 1"
    by (simp_all add: run)
  have del: "delete_succeeds (del_ctx 5 ''a.html'') all_ok one_stored"
    "\<not> isl (updateFileCount (JNum 5) False all_ok (users_db one_stored))"
    by (simp_all add: delete_succeeds_def run)
  have changed_up:
    "getUserStats (users_db (snd (document_handler (upload_ctx 5 ''a.html'') all_ok (joined 5))))
       (JNum 5) \<noteq> getUserStats (users_db (joined 5)) (JNum 5)"
    by (simp add: run)
  have changed_del:
    "getUserStats (users_db (snd (del_handler (del_ctx 5 ''a.html'') all_ok one_stored))) (JNum 5)
       \<noteq> getUserStats (users_db one_stored) (JNum 5)"
    by (simp add: run)
  from down senders up stored del changed_up changed_del
    ledger_after_storage [of storage_down "upload_ctx 5 ''a.html''" "joined 5" "JNum 5"
      storage_down "del_ctx 5 ''a.html''" one_stored]
    ledger_after_storage [of all_ok "upload_ctx 5 ''a.html''" "joined 5" "JNum 5"
      all_ok "del_ctx 5 ''a.html''" one_stored]
  show ?thesis by (simp add: one_stored_def)
qed

text \<open>
  Claim C10. A user without a document, not banned, sends a file with an accepted extension;
  the download and the save succeed. The handler answers with the upload error, the object
  is stored in the bucket, and the users collection is exactly what it was: no document and
  no counter is created.
\<close>

theorem upload_without_document:
  "users_db w (String_of_num (from_id c)) = None \<Longrightarrow>
   \<not> isBanned w (JNum (from_id c)) \<Longrightarrow>
   endsWith (file_name c) ''.html'' \<or> endsWith (file_name c) ''.zip'' \<Longrightarrow>
   linkOk e \<Longrightarrow> saveOk e \<Longrightarrow>
   fst (document_handler c e w) = [Progress, UploadError]
   \<and> bucket (snd (document_handler c e w))
       = blob_save (upload_path (from_id c) (file_name c)) (bucket w)
   \<and> upload_path (from_id c) (file_name c) \<in> set (bucket (snd (document_handler c e w)))
   \<and> users_db (snd (document_handler c e w)) = users_db w
   \<and> updateFileCount (JNum (from_id c)) True e (users_db w)
       = Inl (if statsReadOk e then NotFound else StoreError)"
  by (auto simp: document_handler_def upload_try_def updateFileCount_def doc_update_def
        canUploadFile_def getUserStats_def default_stats_def blob_save_def Let_def)

text \<open>User 5 sends \<^verbatim>\<open>a.html\<close> to the fresh process without having sent the start command.\<close>

theorem upload_without_document_witness:
  "users_db fresh_world (String_of_num (from_id (upload_ctx 5 ''a.html''))) = None
   \<and> \<not> isBanned fresh_world (JNum (from_id (upload_ctx 5 ''a.html'')))
   \<and> endsWith (file_name (upload_ctx 5 ''a.html'')) ''.html''
   \<and> linkOk all_ok \<and> saveOk all_ok
   \<and> fst (document_handler (upload_ctx 5 ''a.html'') all_ok fresh_world) = [Progress, UploadError]
   \<and> bucket (snd (document_handler (upload_ctx 5 ''a.html'') all_ok fresh_world))
       = [''uploads/5/a.html'']
   \<and> users_db (snd (document_handler (upload_ctx 5 ''a.html'') all_ok fresh_world))
       = users_db fresh_world"
proof -
  have pre: "users_db fresh_world (String_of_num (from_id (upload_ctx 5 ''a.html''))) = None"
    "\<not> isBanned fresh_world (JNum (from_id (upload_ctx 5 ''a.html'')))"
    "endsWith (file_name (upload_ctx 5 ''a.html'')) ''.html''"
    "linkOk all_ok" "saveOk all_ok"
    by (simp_all add: upload_ctx_def scenario_defs string_defs ledger_defs)
  have stored: "blob_save (upload_path (from_id (upload_ctx 5 ''a.html''))
                  (file_name (upload_ctx 5 ''a.html''))) (bucket fresh_world)
                = [''uploads/5/a.html'']"
    by (simp add: upload_ctx_def scenario_defs string_defs ledger_defs)
  from pre stored
    upload_without_document [of fresh_world "upload_ctx 5 ''a.html''" all_ok]
  show ?thesis by simp
qed

section \<open>Quota invariant\<close>

lemma quota_ok_decrement:
  assumes "quota_ok db k"
  shows "quota_ok (ledger_write u False e db) k"
proof (cases "js_String k = js_String u \<and> \<not> isl (updateFileCount u False e db)")
  case True
  then have "getUserStats db k = getUserStats db u" by (simp add: getUserStats_def)
  with assms True show ?thesis
    by (simp add: quota_ok_def getUserStats_ledger_write)
next
  case False
  with assms show ?thesis
    by (auto simp: quota_ok_def getUserStats_ledger_write)
qed

lemma quota_ok_increment:
  assumes "quota_ok db k" and "canUploadFile db u"
  shows "quota_ok (ledger_write u True e db) k"
proof (cases "js_String k = js_String u \<and> \<not> isl (updateFileCount u True e db)")
  case True
  from assms(2) have "fileCount (getUserStats db u)
      < baseLimit (getUserStats db u) + int (length (referrals (getUserStats db u)))"
    by (simp add: canUploadFile_def Let_def)
  with True show ?thesis
    by (simp add: quota_ok_def getUserStats_ledger_write)
next
  case False
  with assms(1) show ?thesis
    by (auto simp: quota_ok_def getUserStats_ledger_write)
qed

lemma quota_ok_apply_op:
  "quota_ok (users_db w) k \<Longrightarrow> quota_ok (users_db (apply_op x w)) k"
proof (cases x)
  case (Upload c e)
  assume "quota_ok (users_db w) k"
  then show ?thesis
    by (simp add: Upload document_handler_db quota_ok_increment save_succeeds_def)
next
  case (Delete c e)
  assume "quota_ok (users_db w) k"
  then show ?thesis
    by (simp add: Delete del_handler_db quota_ok_decrement)
qed

text \<open>
  Claim C6. Uploads and deletes run one after the other through the two handlers, by any
  users, on any files and with any outcome of the external calls. If the statistics read
  under an identifier satisfy \<open>fileCount \<le> baseLimit + length referrals\<close> before the
  sequence, they satisfy it after the sequence.
\<close>

theorem quota_invariant:
  "quota_ok (users_db w) k \<Longrightarrow> quota_ok (users_db (run_ops xs w)) k"
proof (induction xs arbitrary: w)
  case Nil
  then show ?case by simp
next
  case (Cons x xs)
  from Cons.prems have "quota_ok (users_db (apply_op x w)) k"
    by (rule quota_ok_apply_op)
  then have "quota_ok (users_db (run_ops xs (apply_op x w))) k"
    by (rule Cons.IH)
  then show ?case by simp
qed

text \<open>
  User 5, with two slots, sends three files and deletes the first: the third upload is
  refused at the gate, and the count ends at 1.
\<close>

theorem quota_invariant_witness:
  "quota_ok (users_db (joined 5)) (JNum 5)
   \<and> quota_ok (users_db (run_ops three_uploads_one_delete (joined 5))) (JNum 5)
   \<and> fileCount (getUserStats (users_db (run_ops three_uploads_one_delete (joined 5))) (JNum 5)) = 1
   \<and> bucket (run_ops three_uploads_one_delete (joined 5)) = [''uploads/5/b.html'']"
proof -
  have start: "quota_ok (users_db (joined 5)) (JNum 5)"
    by (simp add: quota_ok_def scenario_defs string_defs ledger_defs handler_defs Let_def)
  have count: "fileCount (getUserStats (users_db (run_ops three_uploads_one_delete (joined 5)))
                 (JNum 5)) = 1"
    by (simp add: three_uploads_one_delete_def upload_ctx_def del_ctx_def scenario_defs
          string_defs ledger_defs handler_defs Let_def)
  have stored: "bucket (run_ops three_uploads_one_delete (joined 5)) = [''uploads/5/b.html'']"
    by (simp add: three_uploads_one_delete_def upload_ctx_def del_ctx_def scenario_defs
          string_defs ledger_defs handler_defs Let_def)
  from start count stored
    quota_invariant [OF start, of three_uploads_one_delete]
  show ?thesis by simp
qed

section \<open>Moderation gate\<close>

text \<open>
  The ban branch of the text handler stores the text it received, a string; the gate looks
  the numeric sender up. No text makes a number a member of the set.
\<close>

lemma ban_never_matches_sender:
  "isAdmin w (from_id c) \<Longrightarrow> adminStates w (from_id c) \<noteq> Some ''add_slots'' \<Longrightarrow>
   banUserMode w \<Longrightarrow>
   isBanned (snd (text_handler c w)) (JNum n) = isBanned w (JNum n)"
  by (simp add: text_handler_def isBanned_def Let_def)

text \<open>
  Claim C3 fails on the code. User 7 has a document; the administrator bans \<^verbatim>\<open>7\<close> through
  the ban flow, so the string \<^verbatim>\<open>"7"\<close> is in the banned set. User 7 is still not banned
  for the gate: the upload is accepted and brings \<open>fileCount\<close> from 0 to 1, the stats
  action answers with the statistics, the file list and the delete menu are served, and the
  deletion of the uploaded file brings the count back to 0.
\<close>

theorem banned_user_not_gated:
  "JStr ''7'' \<in> bannedUsers banned7
   \<and> \<not> isBanned banned7 (JNum 7)
   \<and> fileCount (getUserStats (users_db banned7) (JNum 7)) = 0
   \<and> fst (document_handler (upload_ctx 7 ''a.html'') all_ok banned7)
       = [Progress, UploadSuccess ''uploads/7/a.html'' 1 2, Animation]
   \<and> fileCount (getUserStats
        (users_db (snd (document_handler (upload_ctx 7 ''a.html'') all_ok banned7))) (JNum 7)) = 1
   \<and> fst (mystats_handler (ctx_from 7) banned7) = [StatsReply 0 2 0]
   \<and> fst (myfiles_handler (ctx_from 7) all_ok
        (snd (document_handler (upload_ctx 7 ''a.html'') all_ok banned7)))
       = [FilesList [''uploads/7/a.html'']]
   \<and> fst (delete_handler (ctx_from 7) all_ok
        (snd (document_handler (upload_ctx 7 ''a.html'') all_ok banned7)))
       = [DeleteMenu [''a.html'']]
   \<and> fst (del_handler (del_ctx 7 ''a.html'') all_ok
        (snd (document_handler (upload_ctx 7 ''a.html'') all_ok banned7)))
       = [Deleted ''a.html'']
   \<and> fileCount (getUserStats (users_db (snd (del_handler (del_ctx 7 ''a.html'') all_ok
        (snd (document_handler (upload_ctx 7 ''a.html'') all_ok banned7))))) (JNum 7)) = 0"
proof -
  note gate_scenario = banned7_def text_ctx_def upload_ctx_def del_ctx_def text_handler_def
    ban_user_action_def mystats_handler_def trim_def is_space_def
  have a: "JStr ''7'' \<in> bannedUsers banned7" "\<not> isBanned banned7 (JNum 7)"
    "fileCount (getUserStats (users_db banned7) (JNum 7)) = 0"
    "fst (mystats_handler (ctx_from 7) banned7) = [StatsReply 0 2 0]"
    by (simp_all add: gate_scenario scenario_defs string_defs ledger_defs handler_defs Let_def)
  have b: "fst (document_handler (upload_ctx 7 ''a.html'') all_ok banned7)
             = [Progress, UploadSuccess ''uploads/7/a.html'' 1 2, Animation]"
    "fileCount (getUserStats
        (users_db (snd (document_handler (upload_ctx 7 ''a.html'') all_ok banned7))) (JNum 7)) = 1"
    by (simp_all add: gate_scenario scenario_defs string_defs ledger_defs handler_defs Let_def)
  have c: "fst (myfiles_handler (ctx_from 7) all_ok
        (snd (document_handler (upload_ctx 7 ''a.html'') all_ok banned7)))
       = [FilesList [''uploads/7/a.html'']]"
    "fst (delete_handler (ctx_from 7) all_ok
        (snd (document_handler (upload_ctx 7 ''a.html'') all_ok banned7)))
       = [DeleteMenu [''a.html'']]"
    by (simp_all add: gate_scenario scenario_defs string_defs ledger_defs handler_defs Let_def
          myfiles_handler_def delete_handler_def getFiles_def last_segment_def user_prefix_def
          startsWith_def)
  have d: "fst (del_handler (del_ctx 7 ''a.html'') all_ok
        (snd (document_handler (upload_ctx 7 ''a.html'') all_ok banned7)))
       = [Deleted ''a.html'']"
    "fileCount (getUserStats (users_db (snd (del_handler (del_ctx 7 ''a.html'') all_ok
        (snd (document_handler (upload_ctx 7 ''a.html'') all_ok banned7))))) (JNum 7)) = 0"
    by (simp_all add: gate_scenario scenario_defs string_defs ledger_defs handler_defs Let_def)
  from a b c d show ?thesis by simp
qed

section \<open>Conversation state\<close>

text \<open>Each of the four mode branches of the text handler resets its own flag.\<close>

lemma mode_flags_consumed:
  "isAdmin w (from_id c) \<Longrightarrow> adminStates w (from_id c) \<noteq> Some ''add_slots'' \<Longrightarrow>
   banUserMode w \<or> unbanUserMode w \<or> defaultSlotsMode w \<or> referralRewardMode w \<Longrightarrow>
   (banUserMode w \<longrightarrow> \<not> banUserMode (snd (text_handler c w)))
   \<and> (\<not> banUserMode w \<and> unbanUserMode w \<longrightarrow> \<not> unbanUserMode (snd (text_handler c w)))
   \<and> (\<not> banUserMode w \<and> \<not> unbanUserMode w \<and> defaultSlotsMode w
        \<longrightarrow> \<not> defaultSlotsMode (snd (text_handler c w)))
   \<and> (\<not> banUserMode w \<and> \<not> unbanUserMode w \<and> \<not> defaultSlotsMode w \<and> referralRewardMode w
        \<longrightarrow> \<not> referralRewardMode (snd (text_handler c w)))
   \<and> adminStates (snd (text_handler c w)) = adminStates w"
  by (auto simp: text_handler_def Let_def split: option.splits)

text \<open>
  Claim C4 fails on the code. The administrator presses the ban button: the state map holds
  \<^verbatim>\<open>ban_user\<close> and the ban flag is set. After the answer \<^verbatim>\<open>7\<close> the flag is reset, but
  the entry of the state map is still \<^verbatim>\<open>ban_user\<close>. And when the add-slots button is
  pressed after the ban button, the answer \<^verbatim>\<open>7 3\<close> removes the entry of the state map but
  leaves the ban flag set, so the administrator's next text, \<^verbatim>\<open>hello\<close>, is taken as the
  identifier to ban.
\<close>

theorem state_not_cleared:
  "adminStates ban_armed 1 = Some ''ban_user'' \<and> banUserMode ban_armed
   \<and> \<not> banUserMode ban_answered
   \<and> adminStates ban_answered 1 = Some ''ban_user''
   \<and> adminStates (snd (add_slots_action (ctx_from 1) ban_armed)) 1 = Some ''add_slots''
   \<and> adminStates slots_answered 1 = None
   \<and> banUserMode slots_answered
   \<and> text_handler (text_ctx 1 ''hello'') slots_answered
       = ([UserBanned ''hello''],
          slots_answered\<lparr>banUserMode := False,
                          bannedUsers := insert (JStr ''hello'') (bannedUsers slots_answered)\<rparr>)"
proof -
  note conversation = ban_armed_def text_ctx_def text_handler_def ban_user_action_def
    add_slots_action_def trim_def is_space_def
  have armed: "adminStates ban_armed 1 = Some ''ban_user''" "banUserMode ban_armed"
    "adminStates (snd (add_slots_action (ctx_from 1) ban_armed)) 1 = Some ''add_slots''"
    by (simp_all add: conversation scenario_defs ledger_defs Let_def)
  have answered: "\<not> banUserMode ban_answered" "adminStates ban_answered 1 = Some ''ban_user''"
    by (simp_all add: ban_answered_def conversation scenario_defs ledger_defs Let_def)
  have slots: "adminStates slots_answered 1 = None" "banUserMode slots_answered"
    "isAdmin slots_answered 1"
    by (simp_all add: slots_answered_def conversation scenario_defs ledger_defs
          add_slots_text_def element_def parseInt_def parse_digits_def dec_val_def
          startsWith_def Let_def)
  have next_text: "text_handler (text_ctx 1 ''hello'') slots_answered
       = ([UserBanned ''hello''],
          slots_answered\<lparr>banUserMode := False,
                          bannedUsers := insert (JStr ''hello'') (bannedUsers slots_answered)\<rparr>)"
    using slots
    by (simp add: text_handler_def text_ctx_def ctx_from_def trim_def is_space_def Let_def)
  from armed answered slots next_text show ?thesis by simp
qed

section \<open>Sign of the file count\<close>

text \<open>
  Claim C9 fails on the code. User 5 sends \<^verbatim>\<open>a.html\<close> before having a document: the file
  is stored and the count cannot be written. User 5 then sends the start command and gets a
  document with \<open>fileCount\<close> 0, and deletes the stored file: the deletion succeeds and the
  count is decremented to \<open>-1\<close>.
\<close>

theorem fileCount_negative:
  "users_db (snd (document_handler (upload_ctx 5 ''a.html'') all_ok fresh_world)) ''5'' = None
   \<and> bucket (snd (document_handler (upload_ctx 5 ''a.html'') all_ok fresh_world))
       = [''uploads/5/a.html'']
   \<and> fileCount (getUserStats (users_db (snd (start_handler (ctx_from 5) all_ok
        (snd (document_handler (upload_ctx 5 ''a.html'') all_ok fresh_world))))) (JNum 5)) = 0
   \<and> fileCount (getUserStats (users_db upload_start_delete) (JNum 5)) = - 1
   \<and> bucket upload_start_delete = []"
  by (simp add: upload_start_delete_def upload_ctx_def del_ctx_def scenario_defs string_defs
        ledger_defs handler_defs Let_def)

end
